theory Spec2Isabelle
  imports Complex_Main "HOL-Library.Sublist" "HOL-Library.Char_ord" "HOL-Library.List_Lexorder"
    "HOL-Library.Product_Lexorder"
begin

section \<open>The data: a table of economic-activity records\<close>

text \<open>
  \<^verbatim>\<open>index.py\<close> is one Streamlit script: it reads a CSV file into a pandas DataFrame,
  offers a year filter and a region filter in the sidebar, and renders the filtered table,
  its statistics, a bar chart, a line chart and a correlation heatmap.

  The script reads the columns \<^verbatim>\<open>df['year']\<close> and \<^verbatim>\<open>df['region']\<close> (under their Korean
  headers) in every run, so a row carries them as typed fields: an integer year and a
  region label. pandas infers the type of a column when it reads the file: the region
  column holds numbers (\<open>Numeric\<close>) when every label of the file reads as a number, and
  texts (\<open>Text\<close>) otherwise; it never holds both, and a file whose labels are all digits
  is a frame of \<open>Numeric\<close> labels. A Python string is modelled by its UTF-8 bytes; equality and the
  order of the bytes are equality and the code point order of Python strings. The other
  columns of the file are numeric, found by their header: \<open>columns\<close> is the header of the
  frame without year and region, and \<open>nums r\<close> holds the cells of row \<open>r\<close> under it, in
  order. The three metric columns the charts plot are looked up by header as any other
  column; the script never checks that the file has them.
\<close>

datatype label = Numeric real | Text string

fun is_numeric :: "label \<Rightarrow> bool" where
  "is_numeric (Numeric v) = True"
| "is_numeric (Text t) = False"

fun number_of :: "label \<Rightarrow> real option" where
  "number_of (Numeric v) = Some v"
| "number_of (Text t) = None"

text \<open>Python's \<^verbatim>\<open>sorted\<close> on the labels of a column: numbers ascend by value, texts by code
  points.\<close>

fun label_key :: "label \<Rightarrow> real \<times> string" where
  "label_key (Numeric v) = (v, [])"
| "label_key (Text t) = (0, t)"

definition sorted_labels :: "label list \<Rightarrow> label list" where
  "sorted_labels gs = sort_key label_key gs"

record row =
  year :: int
  region :: label
  nums :: "real list"

record dataframe =
  columns :: "string list"
  rows :: "row list"

text \<open>The headers of the year column and of the region column, and the label of the
  aggregate region (the total over all regions), as the UTF-8 bytes of the Korean words
  in the source.\<close>

definition year_label :: string where
  "year_label = [CHR 0xEB, CHR 0x85, CHR 0x84, CHR 0xEB, CHR 0x8F, CHR 0x84]"

definition region_label :: string where
  "region_label = [CHR 0xEC, CHR 0xA7, CHR 0x80, CHR 0xEC, CHR 0x97, CHR 0xAD]"

definition aggregate :: label where
  "aggregate = Text [CHR 0xEA, CHR 0xB3, CHR 0x84]"

text \<open>The fixed list both metric select boxes offer (lines 70 and 100), and the header each
  entry names: economically active population, employed, unemployed, each with the
  unit suffix \<^verbatim>\<open> (thousand persons)\<close> in Korean.\<close>

datatype metric = Active_population | Employed | Unemployed

definition unit_suffix :: string where
  "unit_suffix = [CHR 0x20, CHR 0x28, CHR 0xEC, CHR 0xB2, CHR 0x9C, CHR 0xEB, CHR 0xAA, CHR 0x85, CHR 0x29]"

fun metric_label :: "metric \<Rightarrow> string" where
  "metric_label Active_population =
     [CHR 0xEA, CHR 0xB2, CHR 0xBD, CHR 0xEC, CHR 0xA0, CHR 0x9C, CHR 0xED, CHR 0x99, CHR 0x9C,
      CHR 0xEB, CHR 0x8F, CHR 0x99, CHR 0xEC, CHR 0x9D, CHR 0xB8, CHR 0xEA, CHR 0xB5, CHR 0xAC] @ unit_suffix"
| "metric_label Employed =
     [CHR 0xEC, CHR 0xB7, CHR 0xA8, CHR 0xEC, CHR 0x97, CHR 0x85, CHR 0xEC, CHR 0x9E, CHR 0x90] @ unit_suffix"
| "metric_label Unemployed =
     [CHR 0xEC, CHR 0x8B, CHR 0xA4, CHR 0xEC, CHR 0x97, CHR 0x85, CHR 0xEC, CHR 0x9E, CHR 0x90] @ unit_suffix"

section \<open>The pandas operations the script uses\<close>

text \<open>\<^verbatim>\<open>Series.unique()\<close>: the distinct values in order of first appearance.\<close>

definition unique :: "'a list \<Rightarrow> 'a list" where
  "unique xs = rev (remdups (rev xs))"

text \<open>\<^verbatim>\<open>Series.isin(values)\<close>, \<^verbatim>\<open>Series == v\<close> and \<^verbatim>\<open>mask & mask\<close>: boolean masks, one
  entry per row. The value compared with may be absent (Python's \<^verbatim>\<open>None\<close>), which equals
  no cell.\<close>

definition isin :: "'a list \<Rightarrow> 'a list \<Rightarrow> bool list" where
  "isin series vs = map (\<lambda>v. v \<in> set vs) series"

definition eq_mask :: "'a list \<Rightarrow> 'a option \<Rightarrow> bool list" where
  "eq_mask series v = map (\<lambda>c. Some c = v) series"

definition mask_and :: "bool list \<Rightarrow> bool list \<Rightarrow> bool list" where
  "mask_and a b = map2 (\<and>) a b"

text \<open>\<^verbatim>\<open>df[mask]\<close>: a new frame with the rows whose mask entry is true; the header is kept.\<close>

definition getitem_mask :: "dataframe \<Rightarrow> bool list \<Rightarrow> dataframe" where
  "getitem_mask d keep = d\<lparr>rows := map fst (filter snd (zip (rows d) keep))\<rparr>"

text \<open>\<^verbatim>\<open>df.empty\<close>: a frame always has its year and region columns, so it is empty when it
  has no row.\<close>

definition df_empty :: "dataframe \<Rightarrow> bool" where
  "df_empty d = (rows d = [])"

text \<open>\<^verbatim>\<open>df.select_dtypes(include=['number']).columns.tolist()\<close>: the numeric columns in the
  order of the header. The year column holds integers and the other columns hold numbers;
  the region column is numeric when its labels are numbers. The script asks this of a
  frame that has rows only (line 126), and a frame that \<^verbatim>\<open>df[mask]\<close> returns has the
  column types of the frame it was taken from.\<close>

definition numeric_region :: "dataframe \<Rightarrow> bool" where
  "numeric_region d = (rows d \<noteq> [] \<and> list_all is_numeric (map region (rows d)))"

definition select_dtypes_number :: "dataframe \<Rightarrow> string list" where
  "select_dtypes_number d =
     year_label # ((if numeric_region d then [region_label] else []) @ columns d)"

text \<open>The cell of row \<open>r\<close> under header \<open>name\<close>, if the row has one.\<close>

definition cell :: "dataframe \<Rightarrow> string \<Rightarrow> row \<Rightarrow> real option" where
  "cell d name r = map_of (zip (columns d) (nums r)) name"

text \<open>A frame read by \<^verbatim>\<open>read_csv\<close> is rectangular: every row has one cell under every header.\<close>

definition rectangular :: "dataframe \<Rightarrow> bool" where
  "rectangular d = list_all (\<lambda>r. length (nums r) = length (columns d)) (rows d)"

section \<open>The Streamlit widgets\<close>

text \<open>
  One run of the script reads the state of six widgets. \<open>None\<close> is a widget the user has
  not touched, which returns its default: the \<^verbatim>\<open>default=\<close> list of a multiselect, the
  first option of a select box. A select box whose stored choice is not among its options
  falls back to the first option, and has no value when it has no option.
\<close>

record widgets =
  years_picked :: "int list option"
  regions_picked :: "label list option"
  bar_metric_picked :: "metric option"
  comp_year_picked :: "int option"
  line_metric_picked :: "metric option"
  trend_region_picked :: "label option"

definition multiselect :: "'a list \<Rightarrow> 'a list \<Rightarrow> 'a list option \<Rightarrow> 'a list" where
  "multiselect opts dflt picked = (case picked of None \<Rightarrow> dflt | Some chosen \<Rightarrow> chosen)"

fun selectbox :: "'a list \<Rightarrow> 'a option \<Rightarrow> 'a option" where
  "selectbox [] picked = None"
| "selectbox (x # xs) picked =
     Some (case picked of None \<Rightarrow> x | Some v \<Rightarrow> if v \<in> set (x # xs) then v else x)"

definition selectbox_metric :: "metric option \<Rightarrow> metric" where
  "selectbox_metric picked = (case picked of None \<Rightarrow> Active_population | Some m \<Rightarrow> m)"

section \<open>What a run renders\<close>

datatype message =
    File_not_found
  | Select_data_first
  | No_data_for_year
  | No_data_for_region
  | Too_few_numeric_columns

datatype heading = Filtered_data | Visualisation | Bar_section | Line_section | Heatmap_section

text \<open>A figure is the plotting call with its arguments: the bar plot of a frame by region
  (with the year of its title), the line plot of a frame by year (with the region of its
  title and the ticks given to \<^verbatim>\<open>plt.xticks\<close>), and the heat map of the correlation
  matrix pandas computes over the given columns of a frame.\<close>

datatype figure =
    Barplot dataframe metric "int option"
  | Lineplot dataframe metric "label option" "int list"
  | Heatmap "string list" dataframe

datatype element =
    St_error message
  | St_warning message
  | St_info message
  | St_title
  | Sidebar_header
  | Multiselect_years "int list" "int list"
  | Multiselect_regions "label list" "label list"
  | St_header heading
  | St_subheader heading
  | Row_count nat
  | St_dataframe dataframe
  | Describe dataframe
  | Selectbox_metric
  | Selectbox_year "int list"
  | Selectbox_region "label list"
  | St_pyplot figure

fun is_chart :: "element \<Rightarrow> bool" where
  "is_chart (St_pyplot fig) = True"
| "is_chart e = False"

fun is_heatmap :: "element \<Rightarrow> bool" where
  "is_heatmap (St_pyplot (Heatmap cols d)) = True"
| "is_heatmap e = False"

section \<open>What seaborn draws\<close>

text \<open>
  \<^verbatim>\<open>sns.barplot\<close> and \<^verbatim>\<open>sns.lineplot\<close> are called with \<^verbatim>\<open>data=\<close>, \<^verbatim>\<open>x=\<close> and \<^verbatim>\<open>y=\<close> only,
  so seaborn's defaults apply. A \<^verbatim>\<open>y\<close> that is no column of the data is a
  \<^verbatim>\<open>ValueError\<close>. The observations are the pairs of the x value and the y cell of each
  row (a row without the cell gives none). Both plots aggregate the observations that
  share an x value with the default estimator, the mean. The bar plot draws one bar per
  observed region, in order of first appearance for text labels and in ascending order
  for numeric ones; the line plot sorts by x (\<^verbatim>\<open>sort=True\<close>) and draws one marked point
  per year.
\<close>

datatype exn = ValueError | ReadError

definition has_column :: "dataframe \<Rightarrow> metric \<Rightarrow> bool" where
  "has_column d m = (metric_label m \<in> set (columns d))"

definition observations :: "dataframe \<Rightarrow> (row \<Rightarrow> 'x) \<Rightarrow> metric \<Rightarrow> ('x \<times> real) list" where
  "observations d x m =
     concat (map (\<lambda>r. case cell d (metric_label m) r of None \<Rightarrow> [] | Some v \<Rightarrow> [(x r, v)]) (rows d))"

definition mean :: "real list \<Rightarrow> real" where
  "mean vs = sum_list vs / of_nat (length vs)"

definition estimate :: "('x \<times> real) list \<Rightarrow> 'x \<Rightarrow> real" where
  "estimate obs x = mean (map snd (filter (\<lambda>p. fst p = x) obs))"

definition categories :: "label list \<Rightarrow> label list" where
  "categories gs = (if list_all is_numeric gs then sorted_labels (unique gs) else unique gs)"

definition bars :: "dataframe \<Rightarrow> metric \<Rightarrow> (label \<times> real) list" where
  "bars d m = (let obs = observations d region m
               in map (\<lambda>g. (g, estimate obs g)) (categories (map fst obs)))"

definition points :: "dataframe \<Rightarrow> metric \<Rightarrow> (int \<times> real) list" where
  "points d m = (let obs = observations d year m
                 in map (\<lambda>x. (x, estimate obs x)) (sort (unique (map fst obs))))"

text \<open>The cells of the rows \<open>rs\<close> under the header of metric \<open>m\<close>.\<close>

definition cells_of :: "dataframe \<Rightarrow> metric \<Rightarrow> row list \<Rightarrow> real list" where
  "cells_of d m rs =
     concat (map (\<lambda>r. case cell d (metric_label m) r of None \<Rightarrow> [] | Some v \<Rightarrow> [v]) rs)"

section \<open>What pandas computes for the heat map\<close>

text \<open>
  Modelled from the spec: the correlation matrix is computed by \<^verbatim>\<open>DataFrame.corr()\<close> of
  pandas, which is not among the sources of this repository; the script calls it with its
  defaults on the numeric columns of the filtered frame. The spec gives it as the
  pairwise Pearson correlation \<open>cov(X, Y) / (\<sigma>X \<sigma>Y)\<close>. Each pair of columns is taken
  over the rows that have a value in both. An entry that this quotient does not define
  is NaN, here \<open>None\<close>: with fewer than two such rows, and with a column that does not
  vary over them. The numbers are the reals; the rounding of floating point arithmetic is
  not modelled.
\<close>

text \<open>The value of row \<open>r\<close> in the numeric column \<open>name\<close>, if it has one.\<close>

definition series :: "dataframe \<Rightarrow> string \<Rightarrow> row \<Rightarrow> real option" where
  "series d name r =
     (if name = year_label then Some (of_int (year r))
      else if name = region_label then number_of (region r)
      else cell d name r)"

text \<open>The pairs of values of two columns, and the values of one column, over the rows that
  have them.\<close>

definition paired :: "dataframe \<Rightarrow> string \<Rightarrow> string \<Rightarrow> (real \<times> real) list" where
  "paired d a b =
     concat (map (\<lambda>r. case series d a r of None \<Rightarrow> []
                       | Some x \<Rightarrow> (case series d b r of None \<Rightarrow> [] | Some y \<Rightarrow> [(x, y)]))
                 (rows d))"

definition present :: "dataframe \<Rightarrow> string \<Rightarrow> real list" where
  "present d a = concat (map (\<lambda>r. case series d a r of None \<Rightarrow> [] | Some x \<Rightarrow> [x]) (rows d))"

text \<open>Modelled from the spec: the sample covariance, the standard deviation and Pearson's
  coefficient \<open>cov(X, Y) / (\<sigma>X \<sigma>Y)\<close>, which pandas computes inside \<^verbatim>\<open>corr()\<close>.\<close>

definition covariance :: "(real \<times> real) list \<Rightarrow> real" where
  "covariance ps =
     sum_list (map (\<lambda>p. (fst p - mean (map fst ps)) * (snd p - mean (map snd ps))) ps)
       / (of_nat (length ps) - 1)"

definition std :: "real list \<Rightarrow> real" where
  "std xs = sqrt (covariance (zip xs xs))"

definition pearson :: "(real \<times> real) list \<Rightarrow> real option" where
  "pearson ps =
     (if length ps < 2 \<or> std (map fst ps) * std (map snd ps) = 0 then None
      else Some (covariance ps / (std (map fst ps) * std (map snd ps))))"

definition corr :: "dataframe \<Rightarrow> string list \<Rightarrow> real option list list" where
  "corr d cols = map (\<lambda>a. map (\<lambda>b. pearson (paired d a b)) cols) cols"

text \<open>The matrix that \<^verbatim>\<open>sns.heatmap\<close> annotates.\<close>

fun matrix :: "figure \<Rightarrow> real option list list" where
  "matrix (Heatmap cols d) = corr d cols"
| "matrix fig = []"

text \<open>A column that takes at most one value.\<close>

definition unvarying :: "real list \<Rightarrow> bool" where
  "unvarying xs = (length (remdups xs) \<le> 1)"

section \<open>The script\<close>

subsection \<open>Loading (lines 19 to 28)\<close>

text \<open>The file at the fixed path: absent, unreadable for \<^verbatim>\<open>read_csv\<close> in any other way, or a
  table, given as the frame that \<^verbatim>\<open>read_csv\<close> returns for it, with the column types it
  inferred. \<open>load_data\<close> catches \<^verbatim>\<open>FileNotFoundError\<close> only: it renders the error message
  and returns \<^verbatim>\<open>None\<close>. Any other failure of \<^verbatim>\<open>read_csv\<close> leaves the function as an exception.\<close>

datatype csv_file = Missing | Unreadable | Csv dataframe

definition load_data :: "csv_file \<Rightarrow> exn + (dataframe option \<times> element list)" where
  "load_data f =
     (case f of
        Csv d \<Rightarrow> Inr (Some d, [])
      | Missing \<Rightarrow> Inr (None, [St_error File_not_found])
      | Unreadable \<Rightarrow> Inl ReadError)"

subsection \<open>The sidebar and the filter (lines 31 to 47)\<close>

definition all_years :: "dataframe \<Rightarrow> int list" where
  "all_years d = sort (unique (map year (rows d)))"

definition all_regions :: "dataframe \<Rightarrow> label list" where
  "all_regions d = sorted_labels (unique (map region (rows d)))"

definition default_regions :: "dataframe \<Rightarrow> label list" where
  "default_regions d = filter (\<lambda>region. region \<noteq> aggregate) (all_regions d)"

definition filtered_df :: "dataframe \<Rightarrow> int list \<Rightarrow> label list \<Rightarrow> dataframe" where
  "filtered_df d ys rs =
     getitem_mask d (mask_and (isin (map year (rows d)) ys) (isin (map region (rows d)) rs))"

text \<open>The variables of the script body that later stages read, the elements rendered so
  far, and the exception that ended the run, if one did.\<close>

record store =
  df :: dataframe
  selected_years :: "int list"
  selected_regions :: "label list"
  filtered :: dataframe
  out :: "element list"
  raised :: "exn option"

definition emit :: "element list \<Rightarrow> store \<Rightarrow> store" where
  "emit es s = s\<lparr>out := out s @ es\<rparr>"

definition sidebar :: "widgets \<Rightarrow> dataframe \<Rightarrow> store" where
  "sidebar w d =
     (let ys = multiselect (all_years d) (all_years d) (years_picked w);
          rs = multiselect (all_regions d) (default_regions d) (regions_picked w)
      in \<lparr>df = d, selected_years = ys, selected_regions = rs,
          filtered = filtered_df d ys rs,
          out = [St_title, Sidebar_header,
                 Multiselect_years (all_years d) (all_years d),
                 Multiselect_regions (all_regions d) (default_regions d)],
          raised = None\<rparr>)"

subsection \<open>The table and its statistics (lines 51 to 59)\<close>

definition main_page :: "store \<Rightarrow> store" where
  "main_page s =
     emit [St_header Filtered_data, Row_count (length (rows (filtered s))),
           St_dataframe (filtered s), Describe (filtered s), St_header Visualisation] s"

subsection \<open>The bar chart (lines 62 to 89)\<close>

definition year_df :: "dataframe \<Rightarrow> int option \<Rightarrow> dataframe" where
  "year_df f comp_year = getitem_mask f (eq_mask (map year (rows f)) comp_year)"

definition bar_chart :: "widgets \<Rightarrow> store \<Rightarrow> store" where
  "bar_chart w s =
     (if raised s \<noteq> None then s
      else
        let s1 = emit [St_subheader Bar_section] s in
        if \<not> df_empty (filtered s) \<and> length (selected_years s) > 0 then
          let bar_metric = selectbox_metric (bar_metric_picked w);
              comp_year = selectbox (selected_years s) (comp_year_picked w);
              s2 = emit [Selectbox_metric, Selectbox_year (selected_years s)] s1;
              ydf = year_df (filtered s) comp_year
          in if \<not> df_empty ydf then
               (if has_column ydf bar_metric
                then emit [St_pyplot (Barplot ydf bar_metric comp_year)] s2
                else s2\<lparr>raised := Some ValueError\<rparr>)
             else emit [St_warning No_data_for_year] s2
        else emit [St_info Select_data_first] s1)"

subsection \<open>The line chart (lines 93 to 119)\<close>

definition region_df :: "dataframe \<Rightarrow> label option \<Rightarrow> dataframe" where
  "region_df f trend_region = getitem_mask f (eq_mask (map region (rows f)) trend_region)"

definition line_chart :: "widgets \<Rightarrow> store \<Rightarrow> store" where
  "line_chart w s =
     (if raised s \<noteq> None then s
      else
        let s1 = emit [St_subheader Line_section] s in
        if \<not> df_empty (filtered s) \<and> length (selected_regions s) > 0 then
          let line_metric = selectbox_metric (line_metric_picked w);
              trend_region = selectbox (selected_regions s) (trend_region_picked w);
              s2 = emit [Selectbox_metric, Selectbox_region (selected_regions s)] s1;
              rdf = region_df (filtered s) trend_region
          in if \<not> df_empty rdf then
               (if has_column rdf line_metric
                then emit [St_pyplot (Lineplot rdf line_metric trend_region
                                        (sort (unique (map year (rows rdf)))))] s2
                else s2\<lparr>raised := Some ValueError\<rparr>)
             else emit [St_warning No_data_for_region] s2
        else emit [St_info Select_data_first] s1)"

subsection \<open>The correlation heatmap (lines 123 to 140)\<close>

definition numeric_cols :: "dataframe \<Rightarrow> string list" where
  "numeric_cols f = select_dtypes_number f"

definition heatmap :: "store \<Rightarrow> store" where
  "heatmap s =
     (if raised s \<noteq> None then s
      else
        let s1 = emit [St_subheader Heatmap_section] s in
        if \<not> df_empty (filtered s) then
          (if length (numeric_cols (filtered s)) > 1
           then emit [St_pyplot (Heatmap (numeric_cols (filtered s)) (filtered s))] s1
           else emit [St_warning Too_few_numeric_columns] s1)
        else emit [St_info Select_data_first] s1)"

subsection \<open>One run of the script\<close>

text \<open>The run renders the elements in order; an exception that nothing catches ends it.\<close>

record run =
  shown :: "element list"
  uncaught :: "exn option"

definition body :: "widgets \<Rightarrow> dataframe \<Rightarrow> store" where
  "body w d = heatmap (line_chart w (bar_chart w (main_page (sidebar w d))))"

definition script :: "csv_file \<Rightarrow> widgets \<Rightarrow> run" where
  "script f w =
     (case load_data f of
        Inl e \<Rightarrow> \<lparr>shown = [], uncaught = Some e\<rparr>
      | Inr (None, es) \<Rightarrow> \<lparr>shown = es, uncaught = None\<rparr>
      | Inr (Some d, es) \<Rightarrow> (let s = body w d in \<lparr>shown = es @ out s, uncaught = raised s\<rparr>))"

section \<open>Sample data\<close>

text \<open>The sample of the specification: three records of regions A and B over 2020 and
  2021, each with the three metric columns; and a session in which no widget was touched.\<close>

definition sample_df :: dataframe where
  "sample_df =
     \<lparr>columns = [metric_label Active_population, metric_label Employed, metric_label Unemployed],
      rows = [\<lparr>year = 2020, region = Text ''A'', nums = [100, 90, 10]\<rparr>,
              \<lparr>year = 2020, region = Text ''B'', nums = [200, 180, 20]\<rparr>,
              \<lparr>year = 2021, region = Text ''A'', nums = [110, 95, 15]\<rparr>]\<rparr>"

definition untouched :: widgets where
  "untouched = \<lparr>years_picked = None, regions_picked = None, bar_metric_picked = None,
                 comp_year_picked = None, line_metric_picked = None, trend_region_picked = None\<rparr>"

text \<open>A file with the year and region columns only, and a session that selects the years
  2020 and 2021, the regions B and C, and region C for the trend.\<close>

definition bare_df :: dataframe where
  "bare_df = \<lparr>columns = [],
               rows = [\<lparr>year = 2020, region = Text ''A'', nums = []\<rparr>,
                       \<lparr>year = 2021, region = Text ''B'', nums = []\<rparr>,
                       \<lparr>year = 2022, region = Text ''C'', nums = []\<rparr>]\<rparr>"

definition bare_widgets :: widgets where
  "bare_widgets = untouched\<lparr>years_picked := Some [2020, 2021], regions_picked := Some [Text ''B'', Text ''C''],
                             trend_region_picked := Some (Text ''C'')\<rparr>"

text \<open>The same with region codes 1, 2 and 3 for labels, which pandas reads as numbers, and
  the session that selects the regions 2 and 3, and region 3 for the trend.\<close>

definition coded_df :: dataframe where
  "coded_df = \<lparr>columns = [],
                rows = [\<lparr>year = 2020, region = Numeric 1, nums = []\<rparr>,
                        \<lparr>year = 2021, region = Numeric 2, nums = []\<rparr>,
                        \<lparr>year = 2022, region = Numeric 3, nums = []\<rparr>]\<rparr>"

definition coded_widgets :: widgets where
  "coded_widgets = untouched\<lparr>years_picked := Some [2020, 2021], regions_picked := Some [Numeric 2, Numeric 3],
                              trend_region_picked := Some (Numeric 3)\<rparr>"

text \<open>A file with records of the aggregate region beside those of region A.\<close>

definition totals_df :: dataframe where
  "totals_df = \<lparr>columns = [metric_label Employed],
                 rows = [\<lparr>year = 2020, region = Text ''A'', nums = [90]\<rparr>,
                         \<lparr>year = 2020, region = aggregate, nums = [270]\<rparr>,
                         \<lparr>year = 2021, region = aggregate, nums = [300]\<rparr>]\<rparr>"

text \<open>A file in which the record of region B lacks its trailing cells, which
  \<^verbatim>\<open>read_csv\<close> reads as missing values.\<close>

definition ragged_df :: dataframe where
  "ragged_df =
     \<lparr>columns = [metric_label Active_population, metric_label Employed, metric_label Unemployed],
      rows = [\<lparr>year = 2020, region = Text ''A'', nums = [100, 90, 10]\<rparr>,
              \<lparr>year = 2020, region = Text ''B'', nums = [200]\<rparr>]\<rparr>"

text \<open>A file with two records of region A for the year 2020.\<close>

definition repeated_df :: dataframe where
  "repeated_df =
     \<lparr>columns = [metric_label Active_population, metric_label Employed, metric_label Unemployed],
      rows = [\<lparr>year = 2020, region = Text ''A'', nums = [100, 90, 10]\<rparr>,
              \<lparr>year = 2020, region = Text ''A'', nums = [120, 70, 50]\<rparr>]\<rparr>"

section \<open>The filter keeps the rows of the selected years and regions\<close>

lemma rows_getitem_mask:
  "rows (getitem_mask d (map p (rows d))) = filter p (rows d)"
proof -
  have "map fst (filter snd (zip xs (map p xs))) = filter p xs" for xs :: "row list"
    by (induction xs) auto
  then show ?thesis
    by (simp add: getitem_mask_def)
qed

lemma mask_and_isin:
  "mask_and (isin (map f xs) ys) (isin (map g xs) rs) = map (\<lambda>r. f r \<in> set ys \<and> g r \<in> set rs) xs"
  by (induction xs) (simp_all add: mask_and_def isin_def)

lemma rows_filtered_df:
  "rows (filtered_df d ys rs) = filter (\<lambda>r. year r \<in> set ys \<and> region r \<in> set rs) (rows d)"
  by (simp add: filtered_df_def mask_and_isin rows_getitem_mask)

lemma columns_getitem_mask: "columns (getitem_mask d keep) = columns d"
  by (simp add: getitem_mask_def)

lemma columns_filtered_df: "columns (filtered_df d ys rs) = columns d"
  by (simp add: filtered_df_def columns_getitem_mask)

lemma rows_year_df: "rows (year_df f cy) = filter (\<lambda>r. Some (year r) = cy) (rows f)"
proof -
  have "eq_mask (map year (rows f)) cy = map (\<lambda>r. Some (year r) = cy) (rows f)"
    by (simp add: eq_mask_def)
  then show ?thesis
    by (simp add: year_df_def rows_getitem_mask)
qed

lemma rows_region_df: "rows (region_df f g) = filter (\<lambda>r. Some (region r) = g) (rows f)"
proof -
  have "eq_mask (map region (rows f)) g = map (\<lambda>r. Some (region r) = g) (rows f)"
    by (simp add: eq_mask_def)
  then show ?thesis
    by (simp add: region_df_def rows_getitem_mask)
qed

lemma dataframe_eqI: "columns a = columns b \<Longrightarrow> rows a = rows b \<Longrightarrow> (a :: dataframe) = b"
  by simp

lemma count_list_filter: "count_list (filter P xs) x = (if P x then count_list xs x else 0)"
  by (induction xs) auto

lemma selected_sidebar:
  "selected_years (sidebar w d) = multiselect (all_years d) (all_years d) (years_picked w)"
  "selected_regions (sidebar w d) = multiselect (all_regions d) (default_regions d) (regions_picked w)"
  "filtered (sidebar w d) = filtered_df d (selected_years (sidebar w d)) (selected_regions (sidebar w d))"
  by (simp_all add: sidebar_def Let_def)

text \<open>
  Claim C1. Whatever lists of years \<open>ys\<close> and regions \<open>rs\<close> the two multiselects return, the
  frame the filter stage stores is \<open>filtered_df\<close> of the loaded frame and these lists (and
  any two lists can be chosen); its rows are exactly the rows of the loaded frame whose year
  is in \<open>ys\<close> and whose region is in \<open>rs\<close>, and no others; when \<open>ys\<close> or \<open>rs\<close> is empty, the
  result is empty.
\<close>

theorem filter_stage_exact:
  "filtered (sidebar w d) = filtered_df d (selected_years (sidebar w d)) (selected_regions (sidebar w d))
   \<and> (years_picked w = Some ys \<and> regions_picked w = Some rs \<longrightarrow>
        selected_years (sidebar w d) = ys \<and> selected_regions (sidebar w d) = rs)
   \<and> rows (filtered_df d ys rs) = filter (\<lambda>r. year r \<in> set ys \<and> region r \<in> set rs) (rows d)
   \<and> set (rows (filtered_df d ys rs)) = {r \<in> set (rows d). year r \<in> set ys \<and> region r \<in> set rs}
   \<and> (ys = [] \<or> rs = [] \<longrightarrow> df_empty (filtered_df d ys rs))"
proof -
  have sel: "years_picked w = Some ys \<and> regions_picked w = Some rs \<longrightarrow>
        selected_years (sidebar w d) = ys \<and> selected_regions (sidebar w d) = rs"
    by (simp add: selected_sidebar multiselect_def)
  have exact: "set (rows (filtered_df d ys rs)) = {r \<in> set (rows d). year r \<in> set ys \<and> region r \<in> set rs}"
    by (auto simp: rows_filtered_df)
  have none: "ys = [] \<or> rs = [] \<longrightarrow> df_empty (filtered_df d ys rs)"
    by (auto simp: df_empty_def rows_filtered_df)
  from sel exact none show ?thesis
    by (simp add: selected_sidebar(3) rows_filtered_df)
qed

text \<open>On the sample, the years \<open>{2020}\<close> and the regions \<open>{A, B}\<close> give the first two
  records; no year gives nothing.\<close>

theorem filter_stage_exact_witness:
  "selected_years (sidebar (untouched\<lparr>years_picked := Some [2020], regions_picked := Some [Text ''A'', Text ''B'']\<rparr>) sample_df) = [2020]
   \<and> rows (filtered (sidebar (untouched\<lparr>years_picked := Some [2020], regions_picked := Some [Text ''A'', Text ''B'']\<rparr>) sample_df))
       = [\<lparr>year = 2020, region = Text ''A'', nums = [100, 90, 10]\<rparr>,
          \<lparr>year = 2020, region = Text ''B'', nums = [200, 180, 20]\<rparr>]
   \<and> df_empty (filtered_df sample_df [] [Text ''A'', Text ''B''])"
  using filter_stage_exact [where w = "untouched\<lparr>years_picked := Some [2020], regions_picked := Some [Text ''A'', Text ''B'']\<rparr>"
      and d = sample_df and ys = "[2020]" and rs = "[Text ''A'', Text ''B'']"]
    filter_stage_exact [where w = untouched and d = sample_df and ys = "[]" and rs = "[Text ''A'', Text ''B'']"]
  by (simp add: untouched_def sample_df_def)

section \<open>Filtering twice is filtering once\<close>

text \<open>
  Claim C7. Filtering is idempotent: the filter with the years \<open>ys\<close> and the regions \<open>rs\<close>,
  applied to the result of the same filter, returns that result unchanged (the same header
  and the same rows).
\<close>

theorem filtered_df_idempotent:
  "filtered_df (filtered_df d ys rs) ys rs = filtered_df d ys rs"
proof (rule dataframe_eqI)
  show "columns (filtered_df (filtered_df d ys rs) ys rs) = columns (filtered_df d ys rs)"
    by (simp add: columns_filtered_df)
  show "rows (filtered_df (filtered_df d ys rs) ys rs) = rows (filtered_df d ys rs)"
    by (simp add: rows_filtered_df)
qed

theorem filtered_df_idempotent_witness:
  "filtered_df (filtered_df sample_df [2020] [Text ''A'', Text ''B'']) [2020] [Text ''A'', Text ''B'']
     = sample_df\<lparr>rows := [\<lparr>year = 2020, region = Text ''A'', nums = [100, 90, 10]\<rparr>,
                            \<lparr>year = 2020, region = Text ''B'', nums = [200, 180, 20]\<rparr>]\<rparr>"
proof -
  have "filtered_df sample_df [2020] [Text ''A'', Text ''B'']
     = sample_df\<lparr>rows := [\<lparr>year = 2020, region = Text ''A'', nums = [100, 90, 10]\<rparr>,
                            \<lparr>year = 2020, region = Text ''B'', nums = [200, 180, 20]\<rparr>]\<rparr>"
    by (rule dataframe_eqI) (simp_all add: columns_filtered_df rows_filtered_df sample_df_def)
  then show ?thesis
    using filtered_df_idempotent [of sample_df "[2020]" "[Text ''A'', Text ''B'']"] by simp
qed

section \<open>The filtered rows are a subsequence of the loaded rows\<close>

text \<open>
  Claim C10. The rows of the filtered result are a subsequence of the rows of the loaded
  frame: rows are taken over as they are and in their order, and every row occurs as often
  as in the loaded frame if its year and region are selected, and not at all otherwise. The
  header is kept. So the single-year subset of the bar chart and the single-region subset of
  the line chart are subsequences of the loaded rows too.
\<close>

theorem filtered_df_subseq:
  "subseq (rows (filtered_df d ys rs)) (rows d)
   \<and> count_list (rows (filtered_df d ys rs)) r =
       (if year r \<in> set ys \<and> region r \<in> set rs then count_list (rows d) r else 0)
   \<and> columns (filtered_df d ys rs) = columns d
   \<and> subseq (rows (year_df (filtered_df d ys rs) cy)) (rows d)
   \<and> subseq (rows (region_df (filtered_df d ys rs) g)) (rows d)"
proof -
  have a: "subseq (rows (filtered_df d ys rs)) (rows d)"
    by (simp add: rows_filtered_df)
  have b: "subseq (rows (year_df (filtered_df d ys rs) cy)) (rows (filtered_df d ys rs))"
    by (simp add: rows_year_df)
  have c: "subseq (rows (region_df (filtered_df d ys rs) g)) (rows (filtered_df d ys rs))"
    by (simp add: rows_region_df)
  have n: "count_list (rows (filtered_df d ys rs)) r =
       (if year r \<in> set ys \<and> region r \<in> set rs then count_list (rows d) r else 0)"
    by (simp add: rows_filtered_df count_list_filter)
  from a b c n show ?thesis
    using subseq_order.order_trans columns_filtered_df by blast
qed

text \<open>On the sample with region A selected over both years, the first and the third record
  are kept in this order, each once, and the record of region B is dropped.\<close>

theorem filtered_df_subseq_witness:
  "rows (filtered_df sample_df [2020, 2021] [Text ''A''])
     = [\<lparr>year = 2020, region = Text ''A'', nums = [100, 90, 10]\<rparr>,
        \<lparr>year = 2021, region = Text ''A'', nums = [110, 95, 15]\<rparr>]
   \<and> subseq (rows (filtered_df sample_df [2020, 2021] [Text ''A''])) (rows sample_df)
   \<and> count_list (rows (filtered_df sample_df [2020, 2021] [Text ''A'']))
        \<lparr>year = 2021, region = Text ''A'', nums = [110, 95, 15]\<rparr> = 1
   \<and> count_list (rows (filtered_df sample_df [2020, 2021] [Text ''A'']))
        \<lparr>year = 2020, region = Text ''B'', nums = [200, 180, 20]\<rparr> = 0"
  using filtered_df_subseq [of sample_df "[2020, 2021]" "[Text ''A'']" "\<lparr>year = 2021, region = Text ''A'', nums = [110, 95, 15]\<rparr>"]
    filtered_df_subseq [of sample_df "[2020, 2021]" "[Text ''A'']" "\<lparr>year = 2020, region = Text ''B'', nums = [200, 180, 20]\<rparr>"]
  by (simp add: rows_filtered_df sample_df_def)

section \<open>A missing file\<close>

text \<open>
  Claim C2. When the CSV file does not exist, \<open>load_data\<close> raises nothing: it renders one
  error message and returns no dataset. The run then ends without an exception, and the
  error message is all it renders: the body under the guard \<^verbatim>\<open>if df is not None\<close>
  (filters, table, statistics and the three charts) renders nothing, whatever the state
  of the widgets.
\<close>

theorem missing_file_one_error:
  "load_data Missing = Inr (None, [St_error File_not_found])
   \<and> script Missing w = \<lparr>shown = [St_error File_not_found], uncaught = None\<rparr>"
  by (simp add: script_def load_data_def)

theorem missing_file_one_error_witness:
  "shown (script Missing untouched) = [St_error File_not_found]
   \<and> uncaught (script Missing untouched) = None"
  using missing_file_one_error [of untouched] by simp

text \<open>The definitions that evaluate a run on the sample files.\<close>

lemmas frames = sample_df_def bare_df_def totals_df_def repeated_df_def ragged_df_def untouched_def
  bare_widgets_def coded_df_def coded_widgets_def
lemmas stages = sidebar_def main_page_def bar_chart_def line_chart_def heatmap_def emit_def Let_def
  multiselect_def selectbox_metric_def all_years_def all_regions_def default_regions_def unique_def
  df_empty_def year_df_def region_df_def getitem_mask_def eq_mask_def filtered_df_def isin_def mask_and_def
  has_column_def numeric_cols_def select_dtypes_number_def numeric_region_def unit_suffix_def aggregate_def
  sorted_labels_def categories_def

section \<open>The default selection\<close>

lemma set_unique: "set (unique xs) = set xs"
  by (simp add: unique_def)

lemma distinct_unique: "distinct (unique xs)"
  by (simp add: unique_def)

lemma set_all_years: "set (all_years d) = year ` set (rows d)"
  by (simp add: all_years_def set_unique)

lemma set_all_regions: "set (all_regions d) = region ` set (rows d)"
  by (simp add: all_regions_def sorted_labels_def set_unique)

text \<open>
  Claim C3. The default the region multiselect offers is the distinct regions of the dataset
  without the aggregate label, and the default of the year multiselect is all distinct
  years; an untouched widget returns its default. With the default regions no record of
  the aggregate region is in the filtered result. When the selection \<open>rs\<close> contains the
  aggregate label, the filtered result holds the aggregate records of the selected years,
  which are all aggregate records of the dataset when the years are left at their default.
\<close>

theorem default_selection:
  "set (default_regions d) = region ` set (rows d) - {aggregate}
   \<and> distinct (default_regions d)
   \<and> set (all_years d) = year ` set (rows d)
   \<and> distinct (all_years d)
   \<and> Multiselect_years (all_years d) (all_years d) \<in> set (out (sidebar w d))
   \<and> Multiselect_regions (all_regions d) (default_regions d) \<in> set (out (sidebar w d))
   \<and> (years_picked w = None \<longrightarrow> selected_years (sidebar w d) = all_years d)
   \<and> (regions_picked w = None \<longrightarrow> selected_regions (sidebar w d) = default_regions d)
   \<and> filter (\<lambda>r. region r = aggregate) (rows (filtered_df d ys (default_regions d))) = []
   \<and> (aggregate \<in> set rs \<longrightarrow>
        filter (\<lambda>r. region r = aggregate) (rows (filtered_df d ys rs))
          = filter (\<lambda>r. region r = aggregate \<and> year r \<in> set ys) (rows d))
   \<and> (aggregate \<in> set rs \<longrightarrow>
        filter (\<lambda>r. region r = aggregate) (rows (filtered_df d (all_years d) rs))
          = filter (\<lambda>r. region r = aggregate) (rows d))"
proof -
  have regions: "set (default_regions d) = region ` set (rows d) - {aggregate}"
    by (auto simp: default_regions_def set_all_regions)
  have dr: "distinct (default_regions d)"
    by (simp add: default_regions_def all_regions_def sorted_labels_def distinct_unique)
  have dy: "distinct (all_years d)"
    by (simp add: all_years_def distinct_unique)
  have widgets: "Multiselect_years (all_years d) (all_years d) \<in> set (out (sidebar w d))"
    "Multiselect_regions (all_regions d) (default_regions d) \<in> set (out (sidebar w d))"
    by (simp_all add: sidebar_def Let_def)
  have dflt: "years_picked w = None \<longrightarrow> selected_years (sidebar w d) = all_years d"
    "regions_picked w = None \<longrightarrow> selected_regions (sidebar w d) = default_regions d"
    by (simp_all add: selected_sidebar multiselect_def)
  have excluded: "filter (\<lambda>r. region r = aggregate) (rows (filtered_df d ys (default_regions d))) = []"
    by (auto simp: rows_filtered_df regions filter_empty_conv)
  have added: "aggregate \<in> set rs \<longrightarrow>
        filter (\<lambda>r. region r = aggregate) (rows (filtered_df d ys' rs))
          = filter (\<lambda>r. region r = aggregate \<and> year r \<in> set ys') (rows d)" for ys'
    by (auto simp: rows_filtered_df intro: filter_cong)
  have all: "aggregate \<in> set rs \<longrightarrow>
        filter (\<lambda>r. region r = aggregate) (rows (filtered_df d (all_years d) rs))
          = filter (\<lambda>r. region r = aggregate) (rows d)"
    by (auto simp: rows_filtered_df set_all_years intro: filter_cong)
  from regions dr dy widgets dflt excluded added [of ys] all show ?thesis
    by (simp add: set_all_years)
qed

text \<open>On a file with records of region A and of the aggregate region, the default regions are
  \<open>[A]\<close> and only the record of A is shown; with the aggregate label added and the years
  at their default, both aggregate records are in the result.\<close>

theorem default_selection_witness:
  "default_regions totals_df = [Text ''A'']
   \<and> all_years totals_df = [2020, 2021]
   \<and> selected_years (sidebar untouched totals_df) = [2020, 2021]
   \<and> selected_regions (sidebar untouched totals_df) = [Text ''A'']
   \<and> rows (filtered_df totals_df [2020, 2021] (default_regions totals_df))
        = [\<lparr>year = 2020, region = Text ''A'', nums = [90]\<rparr>]
   \<and> aggregate \<in> set [Text ''A'', aggregate]
   \<and> filter (\<lambda>r. region r = aggregate) (rows (filtered_df totals_df (all_years totals_df) [Text ''A'', aggregate]))
        = [\<lparr>year = 2020, region = aggregate, nums = [270]\<rparr>,
           \<lparr>year = 2021, region = aggregate, nums = [300]\<rparr>]"
  using default_selection [where d = totals_df and w = untouched and ys = "[2020, 2021]" and rs = "[Text ''A'', aggregate]"]
  by (simp add: frames stages)

section \<open>The loaded dataset stays as it was loaded\<close>

text \<open>
  Claim C9. No stage changes the loaded dataset: the sidebar with the filter, the table
  page, the bar chart with its single-year subset, the line chart with its single-region
  subset and the heatmap with its correlation each leave the variable \<open>df\<close> as it was, rows
  and header, and so does the whole body of the script. What they compute are new frames.
\<close>

theorem dataset_never_mutated:
  "df (sidebar w d) = d
   \<and> df (main_page s) = df s
   \<and> df (bar_chart w s) = df s
   \<and> df (line_chart w s) = df s
   \<and> df (heatmap s) = df s
   \<and> df (body w d) = d"
proof -
  have a: "df (sidebar w' d') = d'" for w' d'
    by (simp add: sidebar_def Let_def)
  have b: "df (main_page t) = df t" for t
    by (simp add: main_page_def emit_def)
  have c: "df (bar_chart w' t) = df t" for w' t
    by (simp add: bar_chart_def emit_def Let_def)
  have e: "df (line_chart w' t) = df t" for w' t
    by (simp add: line_chart_def emit_def Let_def)
  have f: "df (heatmap t) = df t" for t
    by (simp add: heatmap_def emit_def Let_def)
  show ?thesis
    by (simp add: a b c e f body_def)
qed

text \<open>On the sample, after the whole body and after the bar chart stage.\<close>

theorem dataset_never_mutated_witness:
  "df (body untouched sample_df) = sample_df
   \<and> df (bar_chart untouched (main_page (sidebar untouched sample_df))) = sample_df"
  using dataset_never_mutated [of untouched sample_df "sidebar untouched sample_df"]
    dataset_never_mutated [of untouched sample_df "main_page (sidebar untouched sample_df)"]
  by simp

section \<open>The placeholders of the heatmap\<close>

text \<open>
  Claim C5. In a run that no exception has ended, the heatmap stage renders, after its
  subheader: the warning about too few numeric columns when the filtered frame is not
  empty and has fewer than two numeric columns, and the informational placeholder when
  the filtered frame is empty. In both cases it adds no heat map, so no correlation
  matrix is computed. Otherwise it renders the heat map over the numeric columns.
\<close>

theorem heatmap_placeholders:
  assumes "raised s = None"
  shows "(\<not> df_empty (filtered s) \<and> length (numeric_cols (filtered s)) < 2 \<longrightarrow>
            out (heatmap s) = out s @ [St_subheader Heatmap_section, St_warning Too_few_numeric_columns]
            \<and> filter is_heatmap (out (heatmap s)) = filter is_heatmap (out s)
            \<and> raised (heatmap s) = None)
       \<and> (df_empty (filtered s) \<longrightarrow>
            out (heatmap s) = out s @ [St_subheader Heatmap_section, St_info Select_data_first]
            \<and> filter is_heatmap (out (heatmap s)) = filter is_heatmap (out s)
            \<and> raised (heatmap s) = None)
       \<and> (\<not> df_empty (filtered s) \<and> 2 \<le> length (numeric_cols (filtered s)) \<longrightarrow>
            out (heatmap s) = out s @ [St_subheader Heatmap_section,
                                       St_pyplot (Heatmap (numeric_cols (filtered s)) (filtered s))])"
  using assms by (simp add: heatmap_def emit_def Let_def)

text \<open>A file with the year and region columns only, filtered to the one record of region B in
  2021: both charts show their warnings (the first selected year and the chosen region have
  no record left), and the heatmap stage warns about too few numeric columns. On the sample
  with no region selected, the heatmap stage shows the informational placeholder.\<close>

theorem heatmap_placeholders_witness:
  "raised (line_chart bare_widgets (bar_chart bare_widgets (main_page (sidebar bare_widgets bare_df)))) = None
   \<and> \<not> df_empty (filtered (line_chart bare_widgets (bar_chart bare_widgets (main_page (sidebar bare_widgets bare_df)))))
   \<and> numeric_cols (filtered (line_chart bare_widgets (bar_chart bare_widgets (main_page (sidebar bare_widgets bare_df)))))
       = [year_label]
   \<and> shown (script (Csv bare_df) bare_widgets)
       = out (line_chart bare_widgets (bar_chart bare_widgets (main_page (sidebar bare_widgets bare_df))))
         @ [St_subheader Heatmap_section, St_warning Too_few_numeric_columns]
   \<and> df_empty (filtered (line_chart (untouched\<lparr>regions_picked := Some []\<rparr>)
        (bar_chart (untouched\<lparr>regions_picked := Some []\<rparr>)
          (main_page (sidebar (untouched\<lparr>regions_picked := Some []\<rparr>) sample_df)))))
   \<and> shown (script (Csv sample_df) (untouched\<lparr>regions_picked := Some []\<rparr>))
       = out (line_chart (untouched\<lparr>regions_picked := Some []\<rparr>)
               (bar_chart (untouched\<lparr>regions_picked := Some []\<rparr>)
                 (main_page (sidebar (untouched\<lparr>regions_picked := Some []\<rparr>) sample_df))))
         @ [St_subheader Heatmap_section, St_info Select_data_first]"
  using heatmap_placeholders [of "line_chart bare_widgets (bar_chart bare_widgets (main_page (sidebar bare_widgets bare_df)))"]
    heatmap_placeholders [of "line_chart (untouched\<lparr>regions_picked := Some []\<rparr>)
        (bar_chart (untouched\<lparr>regions_picked := Some []\<rparr>)
          (main_page (sidebar (untouched\<lparr>regions_picked := Some []\<rparr>) sample_df)))"]
  by (simp add: frames stages script_def load_data_def body_def)

section \<open>The bar chart\<close>

lemma rectangular_getitem_mask: "rectangular d \<Longrightarrow> rectangular (getitem_mask d keep)"
  by (auto simp: rectangular_def getitem_mask_def list_all_iff dest: set_zip_leftD)

lemma cell_present:
  assumes "rectangular d" and "has_column d m" and "r \<in> set (rows d)"
  shows "\<exists>v. cell d (metric_label m) r = Some v"
proof -
  from assms(1,3) have "length (columns d) = length (nums r)"
    by (simp add: rectangular_def list_all_iff)
  with assms(2) show ?thesis
    unfolding cell_def has_column_def by (simp add: map_of_zip_is_Some)
qed

lemma observed_keys:
  assumes "\<forall>r \<in> set rs. \<exists>v. cell d l r = Some v"
  shows "map fst (concat (map (\<lambda>r. case cell d l r of None \<Rightarrow> [] | Some v \<Rightarrow> [(x r, v)]) rs)) = map x rs"
  using assms by (induction rs) auto

lemma keys_observations:
  assumes "rectangular d" and "has_column d m"
  shows "map fst (observations d x m) = map x (rows d)"
  unfolding observations_def
  by (rule observed_keys) (use assms cell_present in blast)

lemma observed_key_iff:
  "k \<in> fst ` set (concat (map (\<lambda>r. case cell d l r of None \<Rightarrow> [] | Some v \<Rightarrow> [(x r, v)]) rs))
   \<longleftrightarrow> (\<exists>r \<in> set rs. cell d l r \<noteq> None \<and> x r = k)"
proof (induction rs)
  case Nil
  show ?case by simp
next
  case (Cons a rs)
  show ?case
  proof (cases "cell d l a")
    case None
    with Cons show ?thesis by simp
  next
    case (Some v)
    with Cons show ?thesis by (auto simp: image_Un)
  qed
qed

lemma key_set_observations:
  "set (map fst (observations d x m)) = x ` {r \<in> set (rows d). cell d (metric_label m) r \<noteq> None}"
proof (rule set_eqI)
  fix k
  have "k \<in> set (map fst (observations d x m))
        \<longleftrightarrow> (\<exists>r \<in> set (rows d). cell d (metric_label m) r \<noteq> None \<and> x r = k)"
    unfolding observations_def set_map by (rule observed_key_iff)
  then show "k \<in> set (map fst (observations d x m))
        \<longleftrightarrow> k \<in> x ` {r \<in> set (rows d). cell d (metric_label m) r \<noteq> None}"
    by blast
qed

lemma observed_cells:
  "map snd (filter (\<lambda>p. fst p = k)
      (concat (map (\<lambda>r. case cell d l r of None \<Rightarrow> [] | Some v \<Rightarrow> [(x r, v)]) rs)))
   = concat (map (\<lambda>r. case cell d l r of None \<Rightarrow> [] | Some v \<Rightarrow> [v]) (filter (\<lambda>r. x r = k) rs))"
  by (induction rs) (auto split: option.splits)

lemma estimate_observations:
  "estimate (observations d x m) k = mean (cells_of d m (filter (\<lambda>r. x r = k) (rows d)))"
  by (simp add: estimate_def observations_def cells_of_def observed_cells)

lemma observed_member:
  assumes "r \<in> set rs" and "cell d l r = Some v"
  shows "(x r, v) \<in> set (concat (map (\<lambda>r. case cell d l r of None \<Rightarrow> [] | Some v \<Rightarrow> [(x r, v)]) rs))"
  using assms by (induction rs) (auto split: option.splits)

lemma set_categories: "set (categories gs) = set gs"
  by (simp add: categories_def sorted_labels_def set_unique)

lemma distinct_categories: "distinct (categories gs)"
  by (simp add: categories_def sorted_labels_def distinct_unique)

lemma bars_keys: "map fst (bars d m) = categories (map fst (observations d region m))"
  by (simp add: bars_def Let_def comp_def)

lemma bars_height:
  assumes "(g, h) \<in> set (bars d m)"
  shows "h = mean (cells_of d m (filter (\<lambda>r. region r = g) (rows d)))"
  using assms by (auto simp: bars_def Let_def estimate_observations)

lemma bars_single:
  assumes "filter (\<lambda>q. region q = region r) (rows d) = [r]" and "cell d (metric_label m) r = Some v"
  shows "(region r, v) \<in> set (bars d m)"
proof -
  from assms(1) have "r \<in> set (filter (\<lambda>q. region q = region r) (rows d))"
    by simp
  then have "r \<in> set (rows d)"
    by simp
  then have "(region r, v) \<in> set (observations d region m)"
    unfolding observations_def using assms(2) by (rule observed_member)
  then have "region r \<in> set (categories (map fst (observations d region m)))"
    by (force simp: set_categories)
  moreover have "estimate (observations d region m) (region r) = v"
    using assms by (simp add: estimate_observations cells_of_def mean_def)
  ultimately show ?thesis
    by (force simp: bars_def Let_def)
qed

text \<open>
  Claim C4, as amended. In a run that no exception has ended, the bar chart stage renders,
  after its subheader: the informational placeholder and no chart when no year is selected
  or the filtered frame is empty; the two select boxes and the warning, and no chart,
  when the filtered frame is not empty and its subset \<open>ydf\<close> for the chosen comparison
  year is; and when \<open>ydf\<close> is not empty, the two select boxes and then the bar plot of
  \<open>ydf\<close> if \<open>ydf\<close> has the column of the chosen metric, and otherwise no chart but the
  \<^verbatim>\<open>ValueError\<close> of the plotting call, which ends the run. \<open>ydf\<close> holds the filtered rows
  of the comparison year. The plot has one bar for each distinct region that has a cell
  of the metric in \<open>ydf\<close>: for every region of \<open>ydf\<close> when no cell is missing. The height
  of the bar of a region is the mean of the chosen metric over the rows of that region in
  \<open>ydf\<close>: it is the value of the metric when the region has one row there.
\<close>

theorem bar_chart_stage:
  assumes "raised s = None"
    and "m = selectbox_metric (bar_metric_picked w)"
    and "cy = selectbox (selected_years s) (comp_year_picked w)"
    and "ydf = year_df (filtered s) cy"
  shows
    "(selected_years s = [] \<or> df_empty (filtered s) \<longrightarrow>
        out (bar_chart w s) = out s @ [St_subheader Bar_section, St_info Select_data_first]
        \<and> filter is_chart (out (bar_chart w s)) = filter is_chart (out s))
     \<and> (\<not> df_empty (filtered s) \<and> selected_years s \<noteq> [] \<and> df_empty ydf \<longrightarrow>
        out (bar_chart w s) = out s @ [St_subheader Bar_section, Selectbox_metric,
                                        Selectbox_year (selected_years s), St_warning No_data_for_year]
        \<and> filter is_chart (out (bar_chart w s)) = filter is_chart (out s))
     \<and> (selected_years s \<noteq> [] \<and> \<not> df_empty ydf \<and> has_column ydf m \<longrightarrow>
        out (bar_chart w s) = out s @ [St_subheader Bar_section, Selectbox_metric,
                                        Selectbox_year (selected_years s), St_pyplot (Barplot ydf m cy)]
        \<and> raised (bar_chart w s) = None)
     \<and> (selected_years s \<noteq> [] \<and> \<not> df_empty ydf \<and> \<not> has_column ydf m \<longrightarrow>
        raised (bar_chart w s) = Some ValueError
        \<and> filter is_chart (out (bar_chart w s)) = filter is_chart (out s))
     \<and> rows ydf = filter (\<lambda>r. Some (year r) = cy) (rows (filtered s))
     \<and> distinct (map fst (bars ydf m))
     \<and> set (map fst (bars ydf m)) = region ` {r \<in> set (rows ydf). cell ydf (metric_label m) r \<noteq> None}
     \<and> (rectangular ydf \<and> has_column ydf m \<longrightarrow>
          set (map fst (bars ydf m)) = region ` set (rows ydf))
     \<and> (\<forall>g h. (g, h) \<in> set (bars ydf m) \<longrightarrow>
          h = mean (cells_of ydf m (filter (\<lambda>r. region r = g) (rows ydf))))
     \<and> (\<forall>r v. filter (\<lambda>q. region q = region r) (rows ydf) = [r] \<and> cell ydf (metric_label m) r = Some v \<longrightarrow>
          (region r, v) \<in> set (bars ydf m))"
proof (intro conjI)
  have nonempty: "\<not> df_empty ydf \<Longrightarrow> \<not> df_empty (filtered s)"
    by (auto simp: assms(4) df_empty_def rows_year_df)
  show "selected_years s = [] \<or> df_empty (filtered s) \<longrightarrow>
      out (bar_chart w s) = out s @ [St_subheader Bar_section, St_info Select_data_first]
      \<and> filter is_chart (out (bar_chart w s)) = filter is_chart (out s)"
    using assms(1) by (auto simp: bar_chart_def emit_def Let_def)
  show "\<not> df_empty (filtered s) \<and> selected_years s \<noteq> [] \<and> df_empty ydf \<longrightarrow>
      out (bar_chart w s) = out s @ [St_subheader Bar_section, Selectbox_metric,
                                      Selectbox_year (selected_years s), St_warning No_data_for_year]
      \<and> filter is_chart (out (bar_chart w s)) = filter is_chart (out s)"
    using assms by (simp add: bar_chart_def emit_def Let_def)
  show "selected_years s \<noteq> [] \<and> \<not> df_empty ydf \<and> has_column ydf m \<longrightarrow>
      out (bar_chart w s) = out s @ [St_subheader Bar_section, Selectbox_metric,
                                      Selectbox_year (selected_years s), St_pyplot (Barplot ydf m cy)]
      \<and> raised (bar_chart w s) = None"
    using assms nonempty by (simp add: bar_chart_def emit_def Let_def)
  show "selected_years s \<noteq> [] \<and> \<not> df_empty ydf \<and> \<not> has_column ydf m \<longrightarrow>
      raised (bar_chart w s) = Some ValueError
      \<and> filter is_chart (out (bar_chart w s)) = filter is_chart (out s)"
    using assms nonempty by (simp add: bar_chart_def emit_def Let_def)
  show "rows ydf = filter (\<lambda>r. Some (year r) = cy) (rows (filtered s))"
    by (simp add: assms(4) rows_year_df)
  show "distinct (map fst (bars ydf m))"
    by (simp only: bars_keys distinct_categories)
  show "set (map fst (bars ydf m)) = region ` {r \<in> set (rows ydf). cell ydf (metric_label m) r \<noteq> None}"
    by (simp only: bars_keys set_categories key_set_observations)
  show "rectangular ydf \<and> has_column ydf m \<longrightarrow>
      set (map fst (bars ydf m)) = region ` set (rows ydf)"
    by (simp add: bars_keys keys_observations set_categories)
  show "\<forall>g h. (g, h) \<in> set (bars ydf m) \<longrightarrow>
      h = mean (cells_of ydf m (filter (\<lambda>r. region r = g) (rows ydf)))"
    using bars_height by blast
  show "\<forall>r v. filter (\<lambda>q. region q = region r) (rows ydf) = [r] \<and> cell ydf (metric_label m) r = Some v \<longrightarrow>
      (region r, v) \<in> set (bars ydf m)"
    using bars_single by blast
qed

text \<open>On the sample: no year selected gives the informational placeholder; region B with the
  comparison year 2021 gives the warning; the metric employed over the year 2020 gives
  the bars 90 for A and 180 for B, in this order. On the file without metric columns the
  plotting call raises.\<close>

theorem bar_chart_stage_witness:
  "raised (main_page (sidebar (untouched\<lparr>years_picked := Some []\<rparr>) sample_df)) = None
   \<and> selected_years (main_page (sidebar (untouched\<lparr>years_picked := Some []\<rparr>) sample_df)) = []
   \<and> out (bar_chart (untouched\<lparr>years_picked := Some []\<rparr>)
            (main_page (sidebar (untouched\<lparr>years_picked := Some []\<rparr>) sample_df)))
       = out (main_page (sidebar (untouched\<lparr>years_picked := Some []\<rparr>) sample_df))
         @ [St_subheader Bar_section, St_info Select_data_first]
   \<and> rows (filtered (main_page (sidebar (untouched\<lparr>regions_picked := Some [Text ''B''], comp_year_picked := Some 2021\<rparr>) sample_df)))
       = [\<lparr>year = 2020, region = Text ''B'', nums = [200, 180, 20]\<rparr>]
   \<and> selected_years (main_page (sidebar (untouched\<lparr>regions_picked := Some [Text ''B''], comp_year_picked := Some 2021\<rparr>) sample_df))
       = [2020, 2021]
   \<and> df_empty (year_df (filtered (main_page (sidebar (untouched\<lparr>regions_picked := Some [Text ''B''], comp_year_picked := Some 2021\<rparr>) sample_df))) (Some 2021))
   \<and> out (bar_chart (untouched\<lparr>regions_picked := Some [Text ''B''], comp_year_picked := Some 2021\<rparr>)
            (main_page (sidebar (untouched\<lparr>regions_picked := Some [Text ''B''], comp_year_picked := Some 2021\<rparr>) sample_df)))
       = out (main_page (sidebar (untouched\<lparr>regions_picked := Some [Text ''B''], comp_year_picked := Some 2021\<rparr>) sample_df))
         @ [St_subheader Bar_section, Selectbox_metric, Selectbox_year [2020, 2021], St_warning No_data_for_year]
   \<and> rows (year_df (filtered (main_page (sidebar (untouched\<lparr>bar_metric_picked := Some Employed\<rparr>) sample_df))) (Some 2020))
       = [\<lparr>year = 2020, region = Text ''A'', nums = [100, 90, 10]\<rparr>,
          \<lparr>year = 2020, region = Text ''B'', nums = [200, 180, 20]\<rparr>]
   \<and> rectangular (year_df (filtered (main_page (sidebar (untouched\<lparr>bar_metric_picked := Some Employed\<rparr>) sample_df))) (Some 2020))
   \<and> has_column (year_df (filtered (main_page (sidebar (untouched\<lparr>bar_metric_picked := Some Employed\<rparr>) sample_df))) (Some 2020)) Employed
   \<and> out (bar_chart (untouched\<lparr>bar_metric_picked := Some Employed\<rparr>)
            (main_page (sidebar (untouched\<lparr>bar_metric_picked := Some Employed\<rparr>) sample_df)))
       = out (main_page (sidebar (untouched\<lparr>bar_metric_picked := Some Employed\<rparr>) sample_df))
         @ [St_subheader Bar_section, Selectbox_metric, Selectbox_year [2020, 2021],
            St_pyplot (Barplot (year_df (filtered (main_page (sidebar (untouched\<lparr>bar_metric_picked := Some Employed\<rparr>) sample_df))) (Some 2020))
                         Employed (Some 2020))]
   \<and> bars (year_df (filtered (main_page (sidebar (untouched\<lparr>bar_metric_picked := Some Employed\<rparr>) sample_df))) (Some 2020)) Employed
       = [(Text ''A'', 90), (Text ''B'', 180)]
   \<and> rows (year_df (filtered (main_page (sidebar untouched bare_df))) (Some 2020))
       = [\<lparr>year = 2020, region = Text ''A'', nums = []\<rparr>]
   \<and> \<not> has_column (year_df (filtered (main_page (sidebar untouched bare_df))) (Some 2020)) Active_population
   \<and> raised (bar_chart untouched (main_page (sidebar untouched bare_df))) = Some ValueError"
  using bar_chart_stage [where w = "untouched\<lparr>years_picked := Some []\<rparr>"
      and s = "main_page (sidebar (untouched\<lparr>years_picked := Some []\<rparr>) sample_df)", OF _ refl refl refl,
      THEN conjunct1]
    bar_chart_stage [where w = "untouched\<lparr>regions_picked := Some [Text ''B''], comp_year_picked := Some 2021\<rparr>"
      and s = "main_page (sidebar (untouched\<lparr>regions_picked := Some [Text ''B''], comp_year_picked := Some 2021\<rparr>) sample_df)",
      OF _ refl refl refl, THEN conjunct2, THEN conjunct1]
    bar_chart_stage [where w = "untouched\<lparr>bar_metric_picked := Some Employed\<rparr>"
      and s = "main_page (sidebar (untouched\<lparr>bar_metric_picked := Some Employed\<rparr>) sample_df)", OF _ refl refl refl,
      THEN conjunct2, THEN conjunct2, THEN conjunct1]
    bar_chart_stage [where w = untouched and s = "main_page (sidebar untouched bare_df)", OF _ refl refl refl,
      THEN conjunct2, THEN conjunct2, THEN conjunct2, THEN conjunct1]
  by (simp add: frames stages rectangular_def bars_def observations_def cell_def estimate_def mean_def)

text \<open>
  The claim as stated fails in three places. Where a region has several rows in the
  single-year subset: with two records of region A for 2020, employed 90 and 70, the stage
  plots one bar for A, of height 80, which is the value of neither record. Where a region
  has no value of the metric: the record of region B lacks its cell, and the plot has a
  bar for A only. And where years are selected but the filtered frame is empty: with no
  region selected, the subset of the comparison year 2020 is empty, yet the stage shows
  the informational placeholder and no warning.
\<close>

theorem bar_chart_counterexample:
  "St_pyplot (Barplot repeated_df Employed (Some 2020))
     \<in> set (shown (script (Csv repeated_df) (untouched\<lparr>bar_metric_picked := Some Employed\<rparr>)))
   \<and> map region (rows repeated_df) = [Text ''A'', Text ''A'']
   \<and> cells_of repeated_df Employed (rows repeated_df) = [90, 70]
   \<and> bars repeated_df Employed = [(Text ''A'', 80)]
   \<and> (80 :: real) \<notin> set (cells_of repeated_df Employed (rows repeated_df))
   \<and> St_pyplot (Barplot ragged_df Employed (Some 2020))
     \<in> set (shown (script (Csv ragged_df) (untouched\<lparr>bar_metric_picked := Some Employed\<rparr>)))
   \<and> has_column ragged_df Employed
   \<and> map region (rows ragged_df) = [Text ''A'', Text ''B'']
   \<and> bars ragged_df Employed = [(Text ''A'', 90)]
   \<and> selected_years (main_page (sidebar (untouched\<lparr>regions_picked := Some []\<rparr>) sample_df)) = [2020, 2021]
   \<and> selectbox [2020, 2021] (comp_year_picked (untouched\<lparr>regions_picked := Some []\<rparr>)) = Some 2020
   \<and> df_empty (year_df (filtered (main_page (sidebar (untouched\<lparr>regions_picked := Some []\<rparr>) sample_df))) (Some 2020))
   \<and> out (bar_chart (untouched\<lparr>regions_picked := Some []\<rparr>)
            (main_page (sidebar (untouched\<lparr>regions_picked := Some []\<rparr>) sample_df)))
       = out (main_page (sidebar (untouched\<lparr>regions_picked := Some []\<rparr>) sample_df))
         @ [St_subheader Bar_section, St_info Select_data_first]
   \<and> St_warning No_data_for_year
       \<notin> set (shown (script (Csv sample_df) (untouched\<lparr>regions_picked := Some []\<rparr>)))"
  by (simp add: frames stages script_def load_data_def body_def bars_def observations_def cell_def
      cells_of_def estimate_def mean_def)

section \<open>The line chart\<close>

lemma points_keys: "map fst (points d m) = sort (unique (map fst (observations d year m)))"
  by (simp add: points_def Let_def comp_def)

lemma points_height:
  assumes "(x, y) \<in> set (points d m)"
  shows "y = mean (cells_of d m (filter (\<lambda>r. year r = x) (rows d)))"
  using assms by (auto simp: points_def Let_def estimate_observations)

lemma strict_sorted_sort_unique: "sorted_wrt (<) (sort (unique (xs :: int list)))"
  by (simp add: strict_sorted_iff distinct_unique)

text \<open>
  Claim C6. When the line chart stage plots (no exception has ended the run, a region is
  selected, the subset \<open>rdf\<close> of the chosen region is not empty and has the column of the
  chosen metric), the frame it plots is \<open>rdf\<close>, exactly the filtered rows of the chosen
  region; the points of the line come in strictly ascending order of the year, one for
  each year present in \<open>rdf\<close>, at the mean of the metric over that year's rows; and the
  ticks given to the x axis are the distinct years present in \<open>rdf\<close> in ascending order.
\<close>

theorem line_chart_stage:
  assumes "raised s = None"
    and "m = selectbox_metric (line_metric_picked w)"
    and "g = selectbox (selected_regions s) (trend_region_picked w)"
    and "rdf = region_df (filtered s) g"
    and "selected_regions s \<noteq> []"
    and "\<not> df_empty rdf"
    and "has_column rdf m"
  shows
    "out (line_chart w s) = out s @ [St_subheader Line_section, Selectbox_metric,
        Selectbox_region (selected_regions s),
        St_pyplot (Lineplot rdf m g (sort (unique (map year (rows rdf)))))]
     \<and> rows rdf = filter (\<lambda>r. Some (region r) = g) (rows (filtered s))
     \<and> sorted_wrt (<) (map fst (points rdf m))
     \<and> (rectangular rdf \<longrightarrow> set (map fst (points rdf m)) = year ` set (rows rdf))
     \<and> (\<forall>x y. (x, y) \<in> set (points rdf m) \<longrightarrow>
          y = mean (cells_of rdf m (filter (\<lambda>r. year r = x) (rows rdf))))
     \<and> sorted_wrt (<) (sort (unique (map year (rows rdf))))
     \<and> set (sort (unique (map year (rows rdf)))) = year ` set (rows rdf)"
proof (intro conjI)
  have nonempty: "\<not> df_empty (filtered s)"
    using assms(6) by (auto simp: assms(4) df_empty_def rows_region_df)
  show "out (line_chart w s) = out s @ [St_subheader Line_section, Selectbox_metric,
        Selectbox_region (selected_regions s),
        St_pyplot (Lineplot rdf m g (sort (unique (map year (rows rdf)))))]"
    using assms nonempty by (simp add: line_chart_def emit_def Let_def)
  show "rows rdf = filter (\<lambda>r. Some (region r) = g) (rows (filtered s))"
    by (simp add: assms(4) rows_region_df)
  show "sorted_wrt (<) (map fst (points rdf m))"
    by (simp only: points_keys strict_sorted_sort_unique)
  show "rectangular rdf \<longrightarrow> set (map fst (points rdf m)) = year ` set (rows rdf)"
    using assms(7) by (simp add: points_keys keys_observations set_unique)
  show "\<forall>x y. (x, y) \<in> set (points rdf m) \<longrightarrow>
      y = mean (cells_of rdf m (filter (\<lambda>r. year r = x) (rows rdf)))"
    using points_height by blast
  show "sorted_wrt (<) (sort (unique (map year (rows rdf))))"
    by (rule strict_sorted_sort_unique)
  show "set (sort (unique (map year (rows rdf)))) = year ` set (rows rdf)"
    by (simp add: set_unique)
qed

text \<open>On the sample, region A with the metric employed: the points are \<open>(2020, 90)\<close> and
  then \<open>(2021, 95)\<close>, and the ticks are 2020 and 2021.\<close>

theorem line_chart_stage_witness:
  "raised (bar_chart (untouched\<lparr>line_metric_picked := Some Employed\<rparr>)
      (main_page (sidebar (untouched\<lparr>line_metric_picked := Some Employed\<rparr>) sample_df))) = None
   \<and> selected_regions (bar_chart (untouched\<lparr>line_metric_picked := Some Employed\<rparr>)
      (main_page (sidebar (untouched\<lparr>line_metric_picked := Some Employed\<rparr>) sample_df))) = [Text ''A'', Text ''B'']
   \<and> rows (region_df (filtered (bar_chart (untouched\<lparr>line_metric_picked := Some Employed\<rparr>)
      (main_page (sidebar (untouched\<lparr>line_metric_picked := Some Employed\<rparr>) sample_df)))) (Some (Text ''A'')))
       = [\<lparr>year = 2020, region = Text ''A'', nums = [100, 90, 10]\<rparr>,
          \<lparr>year = 2021, region = Text ''A'', nums = [110, 95, 15]\<rparr>]
   \<and> has_column (region_df (filtered (bar_chart (untouched\<lparr>line_metric_picked := Some Employed\<rparr>)
      (main_page (sidebar (untouched\<lparr>line_metric_picked := Some Employed\<rparr>) sample_df)))) (Some (Text ''A''))) Employed
   \<and> last (out (line_chart (untouched\<lparr>line_metric_picked := Some Employed\<rparr>)
        (bar_chart (untouched\<lparr>line_metric_picked := Some Employed\<rparr>)
          (main_page (sidebar (untouched\<lparr>line_metric_picked := Some Employed\<rparr>) sample_df)))))
       = St_pyplot (Lineplot (region_df (filtered (bar_chart (untouched\<lparr>line_metric_picked := Some Employed\<rparr>)
            (main_page (sidebar (untouched\<lparr>line_metric_picked := Some Employed\<rparr>) sample_df)))) (Some (Text ''A'')))
           Employed (Some (Text ''A'')) [2020, 2021])
   \<and> points (region_df (filtered (bar_chart (untouched\<lparr>line_metric_picked := Some Employed\<rparr>)
      (main_page (sidebar (untouched\<lparr>line_metric_picked := Some Employed\<rparr>) sample_df)))) (Some (Text ''A''))) Employed
       = [(2020, 90), (2021, 95)]"
  using line_chart_stage [where w = "untouched\<lparr>line_metric_picked := Some Employed\<rparr>"
      and s = "bar_chart (untouched\<lparr>line_metric_picked := Some Employed\<rparr>)
      (main_page (sidebar (untouched\<lparr>line_metric_picked := Some Employed\<rparr>) sample_df))", OF _ refl refl refl]
  by (simp add: frames stages points_def observations_def cell_def estimate_def mean_def)


section \<open>The correlation matrix\<close>

lemma paired_self: "paired d a a = map (\<lambda>x. (x, x)) (present d a)"
proof -
  have "concat (map (\<lambda>r. case series d a r of None \<Rightarrow> []
                       | Some x \<Rightarrow> (case series d a r of None \<Rightarrow> [] | Some y \<Rightarrow> [(x, y)])) rs)
        = map (\<lambda>x. (x, x)) (concat (map (\<lambda>r. case series d a r of None \<Rightarrow> [] | Some x \<Rightarrow> [x]) rs))" for rs
    by (induction rs) (auto split: option.splits)
  then show ?thesis
    by (simp add: paired_def present_def)
qed

lemma unvarying_iff: "unvarying xs \<longleftrightarrow> (\<forall>x \<in> set xs. \<forall>y \<in> set xs. x = y)"
proof -
  have "unvarying xs \<longleftrightarrow> card (set xs) \<le> Suc 0"
    by (simp add: unvarying_def length_remdups_card_conv)
  then show ?thesis
    by (simp add: card_le_Suc0_iff_eq)
qed

lemma sum_list_all_equal:
  fixes c :: real
  assumes "\<forall>x \<in> set xs. x = c"
  shows "sum_list xs = of_nat (length xs) * c"
  using assms by (induction xs) (auto simp: algebra_simps)

lemma mean_all_equal:
  assumes "\<forall>x \<in> set xs. x = c" and "xs \<noteq> []"
  shows "mean xs = c"
  using assms by (simp add: mean_def sum_list_all_equal)

lemma squares_zero_iff:
  fixes c :: real
  shows "sum_list (map (\<lambda>x. (x - c) * (x - c)) xs) = 0 \<longleftrightarrow> (\<forall>x \<in> set xs. x = c)"
proof -
  have "sum_list (map (\<lambda>x. (x - c) * (x - c)) xs) = 0
        \<longleftrightarrow> (\<forall>v \<in> set (map (\<lambda>x. (x - c) * (x - c)) xs). v = 0)"
    by (rule sum_list_nonneg_eq_0_iff) auto
  then show ?thesis
    by auto
qed

lemma squares_nonneg:
  fixes c :: real
  shows "0 \<le> sum_list (map (\<lambda>x. (x - c) * (x - c)) xs)"
  by (rule sum_list_nonneg) auto

lemma covariance_self:
  "covariance (map (\<lambda>x. (x, x)) xs)
   = sum_list (map (\<lambda>x. (x - mean xs) * (x - mean xs)) xs) / (of_nat (length xs) - 1)"
  by (simp add: covariance_def comp_def)

lemma zip_self: "zip xs xs = map (\<lambda>x. (x, x)) xs"
  by (induction xs) auto

lemma pearson_self:
  "pearson (map (\<lambda>x. (x, x)) xs) = (if unvarying xs then None else Some 1)"
proof (cases "unvarying xs")
  case True
  show ?thesis
  proof (cases "xs = []")
    case True
    then show ?thesis by (simp add: pearson_def unvarying_def)
  next
    case False
    from \<open>unvarying xs\<close> have eq: "\<forall>x \<in> set xs. \<forall>y \<in> set xs. x = y"
      by (simp add: unvarying_iff)
    from False obtain c where c: "c \<in> set xs"
      by (cases xs) auto
    with eq have all: "\<forall>x \<in> set xs. x = c"
      by blast
    then have "mean xs = c"
      using False by (rule mean_all_equal)
    with all have "sum_list (map (\<lambda>x. (x - mean xs) * (x - mean xs)) xs) = 0"
      by (simp add: squares_zero_iff)
    then have "std xs = 0"
      by (simp add: std_def zip_self covariance_self)
    with \<open>unvarying xs\<close> show ?thesis
      by (simp add: pearson_def comp_def)
  qed
next
  case False
  then obtain x y where xy: "x \<in> set xs" "y \<in> set xs" "x \<noteq> y"
    by (auto simp: unvarying_iff)
  then have two: "2 \<le> length xs"
    by (cases xs; cases "tl xs") auto
  have "\<not> (\<forall>z \<in> set xs. z = mean xs)"
    using xy by metis
  then have "sum_list (map (\<lambda>x. (x - mean xs) * (x - mean xs)) xs) \<noteq> 0"
    by (simp add: squares_zero_iff)
  with squares_nonneg [of "mean xs" xs]
  have pos: "0 < sum_list (map (\<lambda>x. (x - mean xs) * (x - mean xs)) xs)"
    by simp
  from two have "0 < (of_nat (length xs) :: real) - 1"
    by simp
  with pos have v: "0 < covariance (map (\<lambda>x. (x, x)) xs)"
    by (simp add: covariance_self)
  have s: "std xs * std xs = covariance (map (\<lambda>x. (x, x)) xs)"
    using v by (simp add: std_def zip_self)
  from two have "\<not> length (map (\<lambda>x. (x, x)) xs) < 2"
    by simp
  with False v s show ?thesis
    by (simp add: pearson_def comp_def)
qed

lemma self_correlation: "pearson (paired d a a) = (if unvarying (present d a) then None else Some 1)"
  by (simp only: paired_self pearson_self)

text \<open>
  Claim C8, as amended. When the heatmap stage plots, its figure is the heat map of the
  correlation matrix over all numeric columns of the filtered frame: the year column, the
  region column when its labels are numbers, and the other columns. Every entry of the
  matrix is Pearson's coefficient of the two columns over the rows that have a value in
  both, which is \<open>cov(X, Y) / (\<sigma>X \<sigma>Y)\<close> where it is defined. Over the reals, the
  correlation of a column with itself is 1 when the column takes two different values in
  the filtered frame, and is undefined (NaN) when it takes at most one.
\<close>

theorem heatmap_correlation:
  "(raised s = None \<and> \<not> df_empty (filtered s) \<and> 2 \<le> length (numeric_cols (filtered s)) \<longrightarrow>
       out (heatmap s) = out s @ [St_subheader Heatmap_section,
                                  St_pyplot (Heatmap (numeric_cols (filtered s)) (filtered s))])
   \<and> numeric_cols f = year_label # ((if numeric_region f then [region_label] else []) @ columns f)
   \<and> length (matrix (Heatmap cols f)) = length cols
   \<and> (\<forall>i < length cols. \<forall>j < length cols.
         matrix (Heatmap cols f) ! i ! j = pearson (paired f (cols ! i) (cols ! j)))
   \<and> (\<forall>ps c. pearson ps = Some c \<longrightarrow> c = covariance ps / (std (map fst ps) * std (map snd ps)))
   \<and> (\<forall>a. pearson (paired f a a) = (if unvarying (present f a) then None else Some 1))"
proof (intro conjI)
  show "raised s = None \<and> \<not> df_empty (filtered s) \<and> 2 \<le> length (numeric_cols (filtered s)) \<longrightarrow>
       out (heatmap s) = out s @ [St_subheader Heatmap_section,
                                  St_pyplot (Heatmap (numeric_cols (filtered s)) (filtered s))]"
    by (simp add: heatmap_def emit_def Let_def)
  show "numeric_cols f = year_label # ((if numeric_region f then [region_label] else []) @ columns f)"
    by (simp add: numeric_cols_def select_dtypes_number_def)
  show "length (matrix (Heatmap cols f)) = length cols"
    by (simp add: corr_def)
  show "\<forall>i < length cols. \<forall>j < length cols.
         matrix (Heatmap cols f) ! i ! j = pearson (paired f (cols ! i) (cols ! j))"
    by (simp add: corr_def)
  show "\<forall>ps c. pearson ps = Some c \<longrightarrow> c = covariance ps / (std (map fst ps) * std (map snd ps))"
    by (auto simp: pearson_def split: if_splits)
  show "\<forall>a. pearson (paired f a a) = (if unvarying (present f a) then None else Some 1)"
    by (simp only: self_correlation) simp
qed

text \<open>On the sample with nothing filtered out, the year column and the employed column vary,
  and each has correlation 1 with itself. On the file with region codes, the region
  column is numeric and the heat map is drawn over the year and the region column.\<close>

lemmas correlation = series_def paired_def present_def unvarying_def corr_def

theorem heatmap_correlation_witness:
  "raised (line_chart untouched (bar_chart untouched (main_page (sidebar untouched sample_df)))) = None
   \<and> filtered (line_chart untouched (bar_chart untouched (main_page (sidebar untouched sample_df)))) = sample_df
   \<and> numeric_cols sample_df
       = [year_label, metric_label Active_population, metric_label Employed, metric_label Unemployed]
   \<and> shown (script (Csv sample_df) untouched)
       = out (line_chart untouched (bar_chart untouched (main_page (sidebar untouched sample_df))))
         @ [St_subheader Heatmap_section, St_pyplot (Heatmap (numeric_cols sample_df) sample_df)]
   \<and> present sample_df year_label = [2020, 2020, 2021]
   \<and> pearson (paired sample_df year_label year_label) = Some 1
   \<and> present sample_df (metric_label Employed) = [90, 180, 95]
   \<and> pearson (paired sample_df (metric_label Employed) (metric_label Employed)) = Some 1
   \<and> raised (line_chart coded_widgets (bar_chart coded_widgets (main_page (sidebar coded_widgets coded_df)))) = None
   \<and> rows (filtered (line_chart coded_widgets (bar_chart coded_widgets (main_page (sidebar coded_widgets coded_df)))))
       = [\<lparr>year = 2021, region = Numeric 2, nums = []\<rparr>]
   \<and> numeric_cols (filtered (line_chart coded_widgets (bar_chart coded_widgets (main_page (sidebar coded_widgets coded_df)))))
       = [year_label, region_label]
   \<and> last (shown (script (Csv coded_df) coded_widgets))
       = St_pyplot (Heatmap [year_label, region_label]
           (filtered (line_chart coded_widgets (bar_chart coded_widgets (main_page (sidebar coded_widgets coded_df))))))"
  using heatmap_correlation [where s = "line_chart untouched (bar_chart untouched (main_page (sidebar untouched sample_df)))"
      and f = sample_df, THEN conjunct1]
    heatmap_correlation [where f = sample_df,
      THEN conjunct2, THEN conjunct2, THEN conjunct2, THEN conjunct2, THEN conjunct2, THEN spec, of year_label]
    heatmap_correlation [where f = sample_df,
      THEN conjunct2, THEN conjunct2, THEN conjunct2, THEN conjunct2, THEN conjunct2, THEN spec,
      of "metric_label Employed"]
    heatmap_correlation [where s = "line_chart coded_widgets (bar_chart coded_widgets (main_page (sidebar coded_widgets coded_df)))"
      and f = coded_df, THEN conjunct1]
  by (simp add: frames stages correlation script_def load_data_def body_def cell_def
      year_label_def region_label_def)

text \<open>
  The claim as stated fails for a column that does not vary: with the year 2020 alone
  selected on the sample, the heat map is drawn over the numeric columns, the year column
  among them, the year is 2020 in every filtered row, and the correlation of the year
  column with itself is undefined, not 1.
\<close>

theorem self_correlation_counterexample:
  "St_pyplot (Heatmap (numeric_cols (filtered_df sample_df [2020] [Text ''A'', Text ''B'']))
                (filtered_df sample_df [2020] [Text ''A'', Text ''B'']))
     \<in> set (shown (script (Csv sample_df) (untouched\<lparr>years_picked := Some [2020]\<rparr>)))
   \<and> year_label \<in> set (numeric_cols (filtered_df sample_df [2020] [Text ''A'', Text ''B'']))
   \<and> present (filtered_df sample_df [2020] [Text ''A'', Text ''B'']) year_label = [2020, 2020]
   \<and> pearson (paired (filtered_df sample_df [2020] [Text ''A'', Text ''B'']) year_label year_label) = None
   \<and> pearson (paired (filtered_df sample_df [2020] [Text ''A'', Text ''B'']) year_label year_label) \<noteq> Some 1"
  by (simp add: frames stages correlation script_def load_data_def body_def
      pearson_def std_def covariance_def mean_def)

end
